theory Spec2Isabelle
  imports Complex_Main "HOL-Library.Sublist"
begin

section \<open>Data model (lib/v2/types.ts)\<close>

text \<open>
  JavaScript strings are modelled as Isabelle strings whose characters are read as the
  code units U+0000 .. U+00FF (Latin-1).  JavaScript numbers that carry a confidence are
  modelled as exact rationals; the session counters, which start at 0 and only ever grow
  by 1, are modelled as integers.
\<close>

datatype UIDensity = MINIMAL | STANDARD | EXPANDED

datatype UrgencyLevel = LOW | NORMAL | HIGH

definition CONFIDENCE_THRESHOLDS_minimal :: rat where
  "CONFIDENCE_THRESHOLDS_minimal = 8 / 10"

definition CONFIDENCE_THRESHOLDS_expanded :: rat where
  "CONFIDENCE_THRESHOLDS_expanded = 75 / 100"

record UserConfidenceProfile =
  interactionsThisSession :: int
  successfulActions :: int
  backspaceCount :: int
  lastIntentChanged :: bool

record IntentResult =
  type :: string
  description :: string
  confidence :: rat
  urgency :: UrgencyLevel
  density :: UIDensity
  reasoning :: string

record UIContext =
  currentDensity :: UIDensity
  userProfile :: UserConfidenceProfile
  history :: "IntentResult list"

section \<open>String primitives of the host language\<close>

text \<open>\<open>String.prototype.toLowerCase\<close> on Latin-1 code units: A-Z and the accented
  capitals U+00C0 .. U+00DE (without the multiplication sign U+00D7) move up by 32.\<close>

definition toLowerChar :: "char \<Rightarrow> char" where
  "toLowerChar c =
     (let n = (of_char c :: nat)
      in if (65 \<le> n \<and> n \<le> 90) \<or> (192 \<le> n \<and> n \<le> 222 \<and> n \<noteq> 215)
         then char_of (n + 32) else c)"

definition toLowerCase :: "string \<Rightarrow> string" where
  "toLowerCase s = map toLowerChar s"

text \<open>White space and line terminators removed by \<open>String.prototype.trim\<close>, as far as
  they lie below U+0100: TAB, LF, VT, FF, CR, SPACE and NO-BREAK SPACE.\<close>

definition isWhiteSpace :: "char \<Rightarrow> bool" where
  "isWhiteSpace c = ((of_char c :: nat) \<in> {9, 10, 11, 12, 13, 32, 160})"

definition trim :: "string \<Rightarrow> string" where
  "trim s = rev (dropWhile isWhiteSpace (rev (dropWhile isWhiteSpace s)))"

text \<open>\<open>text.includes(s)\<close>: \<open>s\<close> occurs in \<open>text\<close> as a contiguous run.\<close>

fun includesStr :: "string \<Rightarrow> string \<Rightarrow> bool" where
  "includesStr [] s = (s = [])"
| "includesStr (c # cs) s = (prefix s (c # cs) \<or> includesStr cs s)"

text \<open>The regular expression \<open>/\<bsol>d+/\<close> matches exactly when some character is one of 0-9.\<close>

definition isDigit :: "char \<Rightarrow> bool" where
  "isDigit c = (let n = (of_char c :: nat) in 48 \<le> n \<and> n \<le> 57)"

definition hasDigits :: "string \<Rightarrow> bool" where
  "hasDigits s = list_ex isDigit s"

text \<open>Decimal rendering of a natural number, and \<open>Number.prototype.toFixed(2)\<close> for
  magnitudes below \<open>10\<^sup>2\<^sup>1\<close>: the nearest multiple of 1/100 of the magnitude, ties
  upwards, with two fractional digits, and a minus sign for every negative number.\<close>

definition digitChar :: "nat \<Rightarrow> char" where
  "digitChar d = char_of (48 + d mod 10)"

fun natToString :: "nat \<Rightarrow> string" where
  "natToString n = (if n < 10 then [digitChar n] else natToString (n div 10) @ [digitChar n])"

definition toFixed2 :: "rat \<Rightarrow> string" where
  "toFixed2 x =
     (let n = nat \<lfloor>\<bar>x\<bar> * 100 + 1 / 2\<rfloor>;
          body = natToString (n div 100) @ ''.'' @ [digitChar (n div 10), digitChar n]
      in if x < 0 then ''-'' @ body else body)"

definition densityName :: "UIDensity \<Rightarrow> string" where
  "densityName d = (case d of MINIMAL \<Rightarrow> ''MINIMAL'' | STANDARD \<Rightarrow> ''STANDARD''
                     | EXPANDED \<Rightarrow> ''EXPANDED'')"

section \<open>The decision engine (lib/v2/engine.ts)\<close>

definition UNCERTAINTY_SIGNALS :: "string list" where
  "UNCERTAINTY_SIGNALS =
     [''think'', ''maybe'', ''probably'', ''not sure'', ''guess'', ''ish'',
      ''forgot'', ''don'' @ [CHR 0x27] @ ''t remember'', ''unsure'', ''might'']"

definition REFLECTIVE_SIGNALS :: "string list" where
  "REFLECTIVE_SIGNALS =
     [''why'', ''help'', ''understand'', ''insight'', ''tips'', ''suggest'',
      ''how to'', ''what should'', ''broke'', ''struggling'']"

definition URGENCY_HIGH_SIGNALS :: "string list" where
  "URGENCY_HIGH_SIGNALS =
     [''now'', ''asap'', ''immediately'', ''urgent'', ''emergency'', ''fast'', ''quick'']"

definition ANALYTICAL_SIGNALS :: "string list" where
  "ANALYTICAL_SIGNALS =
     [''show'', ''graph'', ''chart'', ''compare'', ''analyze'', ''list'', ''history'', ''trend'']"

definition detectIntentType :: "string \<Rightarrow> string" where
  "detectIntentType text =
     (if list_ex (\<lambda>s. includesStr text s) REFLECTIVE_SIGNALS then ''REFLECTIVE''
      else if list_ex (\<lambda>s. includesStr text s) ANALYTICAL_SIGNALS then ''ANALYTICAL''
      else ''ACTION'')"

definition detectUrgency :: "string \<Rightarrow> UrgencyLevel" where
  "detectUrgency text =
     (if includesStr text ''!'' then HIGH
      else if list_ex (\<lambda>s. includesStr text s) URGENCY_HIGH_SIGNALS then HIGH
      else NORMAL)"

definition computeConfidence :: "string \<Rightarrow> UIContext \<Rightarrow> rat" where
  "computeConfidence text context =
     (let score = 1;
          score = (if list_ex (\<lambda>s. includesStr text s) UNCERTAINTY_SIGNALS
                   then score - 4 / 10 else score);
          score = (if list_ex (\<lambda>s. includesStr text s) REFLECTIVE_SIGNALS
                   then score - 2 / 10 else score);
          score = (if backspaceCount (userProfile context) > 5
                   then score - 1 / 10 else score);
          score = (if lastIntentChanged (userProfile context)
                   then score - 1 / 10 else score);
          score = (if hasDigits text then score + 1 / 10 else score)
      in min (max score 0) 1)"

definition resolveDensity ::
  "string \<Rightarrow> rat \<Rightarrow> UrgencyLevel \<Rightarrow> UIContext \<Rightarrow> UIDensity \<times> string" where
  "resolveDensity ty conf urg context =
     (if ty = ''REFLECTIVE'' then
        (EXPANDED, ''User is seeking guidance (Reflective Intent)'')
      else if conf < CONFIDENCE_THRESHOLDS_expanded then
        (EXPANDED, ''Confidence ('' @ toFixed2 conf @ '') is below threshold (0.75)'')
      else if urg = HIGH then
        (MINIMAL, ''High urgency detected - prioritizing speed'')
      else if ty = ''ACTION'' \<and> conf \<ge> CONFIDENCE_THRESHOLDS_minimal then
        (MINIMAL, ''Confidence ('' @ toFixed2 conf @ '') is high for Action'')
      else
        (STANDARD, ''Default density for balanced interaction''))"

definition assessIntent :: "string \<Rightarrow> UIContext \<Rightarrow> IntentResult" where
  "assessIntent input context =
     (let text = trim (toLowerCase input);
          intentType = detectIntentType text;
          urg = detectUrgency text;
          conf = computeConfidence text context;
          (dens, why) = resolveDensity intentType conf urg context
      in \<lparr> type = intentType, description = input, confidence = conf,
           urgency = urg, density = dens, reasoning = why \<rparr>)"

text \<open>The signal list of the older classifier (lib/intent-classifier.ts) for transactional
  verbs.  The decision engine above has no such list.\<close>

definition ACTION_SIGNALS :: "string list" where
  "ACTION_SIGNALS =
     [''add'', ''create'', ''save'', ''delete'', ''remove'', ''export'', ''share'', ''log'',
      ''record'']"

section \<open>The density tracker (context/DensityContext.tsx)\<close>

text \<open>
  The provider keeps five \<open>useState\<close> cells: \<open>density\<close>, \<open>reasoning\<close>, \<open>lastIntent\<close>,
  \<open>userProfile\<close> and \<open>manualOverride\<close>.  They are the fields of the state record (with the
  prefix \<open>st_\<close>, since the classification result has fields of the same names).  Each
  operation reads the cells of the current render and yields the cells of the next one.
\<close>

record DensityState =
  st_density :: UIDensity
  st_reasoning :: string
  st_lastIntent :: "IntentResult option"
  st_userProfile :: UserConfidenceProfile
  st_manualOverride :: "UIDensity option"

definition INITIAL_PROFILE :: UserConfidenceProfile where
  "INITIAL_PROFILE =
     \<lparr> interactionsThisSession = 0, successfulActions = 0, backspaceCount = 0,
       lastIntentChanged = False \<rparr>"

definition initialState :: DensityState where
  "initialState =
     \<lparr> st_density = STANDARD, st_reasoning = ''Initial state'', st_lastIntent = None,
       st_userProfile = INITIAL_PROFILE, st_manualOverride = None \<rparr>"

text \<open>The two values that \<open>processInput\<close> builds before it runs the engine.\<close>

definition newProfile :: "DensityState \<Rightarrow> UserConfidenceProfile" where
  "newProfile s =
     (st_userProfile s)
       \<lparr> interactionsThisSession := interactionsThisSession (st_userProfile s) + 1 \<rparr>"

definition engineContext :: "DensityState \<Rightarrow> UIContext" where
  "engineContext s =
     \<lparr> currentDensity = st_density s, userProfile = newProfile s,
       history = (case st_lastIntent s of Some li \<Rightarrow> [li] | None \<Rightarrow> []) \<rparr>"

definition processInput :: "string \<Rightarrow> DensityState \<Rightarrow> DensityState" where
  "processInput text s =
     (let result = assessIntent text (engineContext s);
          activeOverride =
            (case st_manualOverride s of
               None \<Rightarrow> None
             | Some ov \<Rightarrow>
                 (case st_lastIntent s of
                    None \<Rightarrow> Some ov
                  | Some li \<Rightarrow> if type result \<noteq> type li then None else Some ov))
      in (case activeOverride of
            Some ov \<Rightarrow>
              s \<lparr> st_userProfile := newProfile s, st_manualOverride := activeOverride,
                  st_density := ov,
                  st_reasoning := ''Manual Override Active (User preferred '' @ densityName ov @ '')'',
                  st_lastIntent := Some result \<rparr>
          | None \<Rightarrow>
              s \<lparr> st_userProfile := newProfile s, st_manualOverride := activeOverride,
                  st_density := density result, st_reasoning := reasoning result,
                  st_lastIntent := Some result \<rparr>))"

definition handleManualOverride :: "UIDensity \<Rightarrow> DensityState \<Rightarrow> DensityState" where
  "handleManualOverride newDensity s =
     s \<lparr> st_manualOverride := Some newDensity, st_density := newDensity,
         st_reasoning := ''User manually overrode density'' \<rparr>"

definition recordSuccess :: "DensityState \<Rightarrow> DensityState" where
  "recordSuccess s =
     s \<lparr> st_userProfile :=
           (st_userProfile s) \<lparr> successfulActions := successfulActions (st_userProfile s) + 1 \<rparr>,
         st_manualOverride :=
           (if st_manualOverride s \<noteq> None then None else st_manualOverride s) \<rparr>"

text \<open>The states a session can be in: the initial one, and whatever the three operations
  make of a state already reached, for any text and any chosen density.\<close>

inductive reachable :: "DensityState \<Rightarrow> bool" where
  reach_init: "reachable initialState"
| reach_input: "reachable s \<Longrightarrow> reachable (processInput text s)"
| reach_override: "reachable s \<Longrightarrow> reachable (handleManualOverride d s)"
| reach_success: "reachable s \<Longrightarrow> reachable (recordSuccess s)"

section \<open>Auxiliary definitions for the statements\<close>

text \<open>The context of the engine's test runner (lib/v2/test-runner.ts).\<close>

definition mockContext :: UIContext where
  "mockContext =
     \<lparr> currentDensity = STANDARD,
       userProfile = \<lparr> interactionsThisSession = 5, successfulActions = 2, backspaceCount = 0,
                       lastIntentChanged = False \<rparr>,
       history = [] \<rparr>"

text \<open>A keyword that normalisation cannot destroy: it is not empty, is already in lower
  case, and neither starts nor ends with white space.\<close>

definition stableKeyword :: "string \<Rightarrow> bool" where
  "stableKeyword k =
     (k \<noteq> [] \<and> toLowerCase k = k \<and> \<not> isWhiteSpace (hd k) \<and> \<not> isWhiteSpace (last k))"

section \<open>Facts about the string primitives\<close>

lemma includesStr_sublist: "includesStr t s \<longleftrightarrow> sublist s t"
  by (induction t) (simp_all add: sublist_Cons_right)

lemma sublist_toLowerCase:
  assumes "sublist k t" and "toLowerCase k = k"
  shows "sublist k (toLowerCase t)"
proof -
  have "sublist (map toLowerChar k) (map toLowerChar t)"
    using assms(1) by (rule map_mono_sublist)
  with assms(2) show ?thesis by (simp add: toLowerCase_def)
qed

lemma dropWhile_stops: "\<not> P a \<Longrightarrow> \<exists>q. dropWhile P (p @ a # r) = q @ a # r"
proof (induction p)
  case Nil
  then show ?case by simp
next
  case (Cons b p)
  then obtain q where q: "dropWhile P (p @ a # r) = q @ a # r" by blast
  show ?case
  proof (cases "P b")
    case True
    with q show ?thesis by simp
  next
    case False
    then have "dropWhile P ((b # p) @ a # r) = (b # p) @ a # r" by simp
    then show ?thesis by blast
  qed
qed

lemma sublist_trim:
  assumes sub: "sublist k t" and ne: "k \<noteq> []"
    and h: "\<not> isWhiteSpace (hd k)" and l: "\<not> isWhiteSpace (last k)"
  shows "sublist k (trim t)"
proof -
  from sub obtain p s where t: "t = p @ k @ s" by (auto simp: sublist_def)
  from ne obtain a k' where k: "k = a # k'" by (cases k) auto
  from h k have a: "\<not> isWhiteSpace a" by simp
  from dropWhile_stops [of isWhiteSpace a p "k' @ s"] a t k
  obtain q where q: "dropWhile isWhiteSpace t = q @ k @ s" by auto
  from ne have kl: "k = butlast k @ [last k]" by simp
  have e: "rev (q @ k @ s) = rev s @ last k # (rev (butlast k) @ rev q)"
    by (subst (1) kl) simp
  from dropWhile_stops [of isWhiteSpace "last k" "rev s" "rev (butlast k) @ rev q"] l
  obtain u where u: "dropWhile isWhiteSpace (rev s @ last k # (rev (butlast k) @ rev q))
      = u @ last k # (rev (butlast k) @ rev q)"
    by blast
  have "trim t = rev (dropWhile isWhiteSpace (rev (q @ k @ s)))"
    by (simp only: trim_def q)
  also have "\<dots> = rev (u @ last k # (rev (butlast k) @ rev q))"
    by (simp only: e u)
  also have "\<dots> = q @ (butlast k @ [last k]) @ rev u"
    by simp
  finally have "trim t = q @ (butlast k @ [last k]) @ rev u" .
  with kl have "trim t = q @ k @ rev u" by simp
  then show ?thesis by (auto simp: sublist_def)
qed

lemma keyword_survives:
  assumes "stableKeyword k" and "includesStr input k"
  shows "includesStr (trim (toLowerCase input)) k"
  using assms
  by (simp add: includesStr_sublist stableKeyword_def sublist_toLowerCase sublist_trim)

lemma reflective_stable: "list_all stableKeyword REFLECTIVE_SIGNALS"
  by code_simp

lemma urgency_stable: "list_all stableKeyword URGENCY_HIGH_SIGNALS"
  by code_simp

lemma bang_stable: "stableKeyword ''!''"
  by code_simp

section \<open>Facts about the engine\<close>

lemma assessIntent_fields:
  "type (assessIntent i c) = detectIntentType (trim (toLowerCase i))"
  "urgency (assessIntent i c) = detectUrgency (trim (toLowerCase i))"
  "confidence (assessIntent i c) = computeConfidence (trim (toLowerCase i)) c"
  "density (assessIntent i c) =
     fst (resolveDensity (detectIntentType (trim (toLowerCase i)))
            (computeConfidence (trim (toLowerCase i)) c) (detectUrgency (trim (toLowerCase i))) c)"
  "reasoning (assessIntent i c) =
     snd (resolveDensity (detectIntentType (trim (toLowerCase i)))
            (computeConfidence (trim (toLowerCase i)) c) (detectUrgency (trim (toLowerCase i))) c)"
  by (simp_all add: assessIntent_def Let_def split: prod.split)

lemma computeConfidence_bounds:
  "0 \<le> computeConfidence text c" "computeConfidence text c \<le> 1"
  by (simp_all add: computeConfidence_def Let_def)

lemma computeConfidence_profile:
  assumes "backspaceCount (userProfile c) = backspaceCount (userProfile c')"
    and "lastIntentChanged (userProfile c) = lastIntentChanged (userProfile c')"
  shows "computeConfidence text c = computeConfidence text c'"
  using assms by (simp add: computeConfidence_def)

lemma resolveDensity_context: "resolveDensity ty conf urg c = resolveDensity ty conf urg c'"
  by (simp add: resolveDensity_def)

lemma assessIntent_profile:
  assumes "backspaceCount (userProfile c) = backspaceCount (userProfile c')"
    and "lastIntentChanged (userProfile c) = lastIntentChanged (userProfile c')"
  shows "type (assessIntent i c) = type (assessIntent i c')"
    and "density (assessIntent i c) = density (assessIntent i c')"
    and "reasoning (assessIntent i c) = reasoning (assessIntent i c')"
    and "confidence (assessIntent i c) = confidence (assessIntent i c')"
    and "urgency (assessIntent i c) = urgency (assessIntent i c')"
  using computeConfidence_profile [OF assms] resolveDensity_context [of _ _ _ c c']
  by (simp_all add: assessIntent_fields)

section \<open>Facts about the tracker\<close>

lemma newProfile_fields:
  "interactionsThisSession (newProfile s) = interactionsThisSession (st_userProfile s) + 1"
  "successfulActions (newProfile s) = successfulActions (st_userProfile s)"
  "backspaceCount (newProfile s) = backspaceCount (st_userProfile s)"
  "lastIntentChanged (newProfile s) = lastIntentChanged (st_userProfile s)"
  by (simp_all add: newProfile_def)

lemma engineContext_profile [simp]: "userProfile (engineContext s) = newProfile s"
  by (simp add: engineContext_def)

lemma processInput_fields:
  "st_userProfile (processInput t s) = newProfile s"
  "st_lastIntent (processInput t s) = Some (assessIntent t (engineContext s))"
  "st_manualOverride (processInput t s) =
     (case st_manualOverride s of
        None \<Rightarrow> None
      | Some ov \<Rightarrow>
          (case st_lastIntent s of
             None \<Rightarrow> Some ov
           | Some li \<Rightarrow>
               if type (assessIntent t (engineContext s)) \<noteq> type li then None else Some ov))"
  "st_density (processInput t s) =
     (case st_manualOverride (processInput t s) of
        Some ov \<Rightarrow> ov
      | None \<Rightarrow> density (assessIntent t (engineContext s)))"
  "st_reasoning (processInput t s) =
     (case st_manualOverride (processInput t s) of
        Some ov \<Rightarrow> ''Manual Override Active (User preferred '' @ densityName ov @ '')''
      | None \<Rightarrow> reasoning (assessIntent t (engineContext s)))"
  by (simp_all add: processInput_def Let_def split: option.split)

lemma processInput_none:
  assumes "st_manualOverride (processInput t s) = None"
  shows "st_density (processInput t s) = density (assessIntent t (engineContext s))"
    and "st_reasoning (processInput t s) = reasoning (assessIntent t (engineContext s))"
  using assms by (simp_all add: processInput_fields(4,5))

lemma processInput_some:
  assumes "st_manualOverride (processInput t s) = Some ov"
  shows "st_density (processInput t s) = ov"
    and "st_reasoning (processInput t s) =
           ''Manual Override Active (User preferred '' @ densityName ov @ '')''"
  using assms by (simp_all add: processInput_fields(4,5))

lemma recordSuccess_fields:
  "st_manualOverride (recordSuccess s) = None"
  "st_density (recordSuccess s) = st_density s"
  "st_reasoning (recordSuccess s) = st_reasoning s"
  "st_lastIntent (recordSuccess s) = st_lastIntent s"
  "interactionsThisSession (st_userProfile (recordSuccess s)) =
     interactionsThisSession (st_userProfile s)"
  "successfulActions (st_userProfile (recordSuccess s)) = successfulActions (st_userProfile s) + 1"
  "backspaceCount (st_userProfile (recordSuccess s)) = backspaceCount (st_userProfile s)"
  "lastIntentChanged (st_userProfile (recordSuccess s)) = lastIntentChanged (st_userProfile s)"
  by (simp_all add: recordSuccess_def)

lemma engineContext_same:
  assumes "backspaceCount (st_userProfile s) = backspaceCount (st_userProfile s')"
    and "lastIntentChanged (st_userProfile s) = lastIntentChanged (st_userProfile s')"
  shows "type (assessIntent t (engineContext s)) = type (assessIntent t (engineContext s'))"
    and "density (assessIntent t (engineContext s)) = density (assessIntent t (engineContext s'))"
    and "reasoning (assessIntent t (engineContext s)) = reasoning (assessIntent t (engineContext s'))"
  using assms by (auto intro!: assessIntent_profile simp: newProfile_fields)

lemma reachable_profile:
  "reachable s \<Longrightarrow> backspaceCount (st_userProfile s) = 0 \<and> \<not> lastIntentChanged (st_userProfile s)"
proof (induction rule: reachable.induct)
  case reach_init
  then show ?case by (simp add: initialState_def INITIAL_PROFILE_def)
next
  case (reach_input s t)
  then show ?case by (simp add: processInput_fields newProfile_fields)
next
  case (reach_override s d)
  then show ?case by (simp add: handleManualOverride_def)
next
  case (reach_success s)
  then show ?case by (simp add: recordSuccess_fields)
qed

section \<open>Intent detection\<close>

text \<open>
  Claim C1, as the engine has it.  Over the normalised (lower-cased, trimmed) input,
  \<open>detectIntentType\<close> consults two disjoint keyword lists, the reflective one and then the
  analytical one; the first list with a match gives the category, and without a match the
  category is ACTION.  The engine has no list of action keywords, so an input with an
  analytical keyword and no reflective keyword is ANALYTICAL, whichever transactional verbs
  it contains as well.
\<close>

theorem detectIntentType_priority:
  "type (assessIntent input context) =
     (if \<exists>k \<in> set REFLECTIVE_SIGNALS. includesStr (trim (toLowerCase input)) k
      then ''REFLECTIVE''
      else if \<exists>k \<in> set ANALYTICAL_SIGNALS. includesStr (trim (toLowerCase input)) k
      then ''ANALYTICAL''
      else ''ACTION'') \<and>
   set REFLECTIVE_SIGNALS \<inter> set ANALYTICAL_SIGNALS = {}"
proof -
  have "set REFLECTIVE_SIGNALS \<inter> set ANALYTICAL_SIGNALS = {}"
    by (simp add: REFLECTIVE_SIGNALS_def ANALYTICAL_SIGNALS_def)
  then show ?thesis
    by (simp add: assessIntent_fields detectIntentType_def list_ex_iff)
qed

theorem detectIntentType_priority_witness:
  "type (assessIntent ''Add 500 and show the chart'' mockContext) = ''ANALYTICAL'' \<and>
   type (assessIntent ''Why am I broke'' mockContext) = ''REFLECTIVE'' \<and>
   type (assessIntent ''Add 500 dollars for food'' mockContext) = ''ACTION''"
proof -
  have a: "\<not> list_ex (includesStr (trim (toLowerCase ''Add 500 and show the chart'')))
             REFLECTIVE_SIGNALS"
    "list_ex (includesStr (trim (toLowerCase ''Add 500 and show the chart''))) ANALYTICAL_SIGNALS"
    by code_simp+
  have b: "list_ex (includesStr (trim (toLowerCase ''Why am I broke''))) REFLECTIVE_SIGNALS"
    by code_simp
  have c: "\<not> list_ex (includesStr (trim (toLowerCase ''Add 500 dollars for food'')))
             REFLECTIVE_SIGNALS"
    "\<not> list_ex (includesStr (trim (toLowerCase ''Add 500 dollars for food'')))
       ANALYTICAL_SIGNALS"
    by code_simp+
  from a b c detectIntentType_priority [of "''Add 500 and show the chart''" mockContext]
    detectIntentType_priority [of "''Why am I broke''" mockContext]
    detectIntentType_priority [of "''Add 500 dollars for food''" mockContext]
  show ?thesis by (simp only: list_ex_iff if_True if_False simp_thms)
qed

text \<open>
  The input ``Add 500 and show the chart'' contains the transactional verb ``add'' and the
  analytical keywords ``show'' and ``chart'', and no reflective keyword.  The engine
  classifies it as ANALYTICAL, not as ACTION.
\<close>

theorem action_keyword_has_no_priority:
  "list_ex (includesStr (trim (toLowerCase ''Add 500 and show the chart''))) ACTION_SIGNALS \<and>
   list_ex (includesStr (trim (toLowerCase ''Add 500 and show the chart''))) ANALYTICAL_SIGNALS \<and>
   \<not> list_ex (includesStr (trim (toLowerCase ''Add 500 and show the chart'')))
       REFLECTIVE_SIGNALS \<and>
   type (assessIntent ''Add 500 and show the chart'' mockContext) = ''ANALYTICAL'' \<and>
   type (assessIntent ''Add 500 and show the chart'' mockContext) \<noteq> ''ACTION''"
  by code_simp

section \<open>Density resolution\<close>

text \<open>
  Claim C4.  Whenever the input contains a reflective keyword, as typed or after
  normalisation, the resulting density is EXPANDED, for every context: neither the
  confidence score nor the urgency can change it.
\<close>

theorem reflective_keyword_expands:
  assumes "k \<in> set REFLECTIVE_SIGNALS"
    and "includesStr input k \<or> includesStr (trim (toLowerCase input)) k"
  shows "density (assessIntent input context) = EXPANDED"
proof -
  from assms(1) reflective_stable have "stableKeyword k" by (simp add: list_all_iff)
  with assms(2) have "includesStr (trim (toLowerCase input)) k"
    using keyword_survives by blast
  with assms(1) have "list_ex (\<lambda>s. includesStr (trim (toLowerCase input)) s) REFLECTIVE_SIGNALS"
    by (auto simp: list_ex_iff)
  then have "detectIntentType (trim (toLowerCase input)) = ''REFLECTIVE''"
    by (simp add: detectIntentType_def)
  then show ?thesis by (simp add: assessIntent_fields resolveDensity_def)
qed

theorem reflective_keyword_expands_witness:
  "''broke'' \<in> set REFLECTIVE_SIGNALS \<and> includesStr ''Why am I broke now!'' ''broke'' \<and>
   density (assessIntent ''Why am I broke now!'' mockContext) = EXPANDED"
proof -
  have m: "''broke'' \<in> set REFLECTIVE_SIGNALS" by (simp add: REFLECTIVE_SIGNALS_def)
  have i: "includesStr ''Why am I broke now!'' ''broke''" by code_simp
  from m i reflective_keyword_expands [OF m, of "''Why am I broke now!''" mockContext]
  show ?thesis by simp
qed

text \<open>
  Claim C5.  Let the input contain an exclamation mark or an urgency keyword (as typed or
  after normalisation), let its normalised text contain no reflective keyword, and let the
  computed confidence be at least the expanded threshold 0.75.  Then the resulting density
  is MINIMAL.
\<close>

theorem urgent_confident_is_minimal:
  assumes urgent: "includesStr input ''!'' \<or> includesStr (trim (toLowerCase input)) ''!'' \<or>
      (\<exists>k \<in> set URGENCY_HIGH_SIGNALS.
          includesStr input k \<or> includesStr (trim (toLowerCase input)) k)"
    and calm: "\<forall>k \<in> set REFLECTIVE_SIGNALS. \<not> includesStr (trim (toLowerCase input)) k"
    and sure: "confidence (assessIntent input context) \<ge> CONFIDENCE_THRESHOLDS_expanded"
  shows "density (assessIntent input context) = MINIMAL"
proof -
  let ?t = "trim (toLowerCase input)"
  have "detectUrgency ?t = HIGH"
  proof (cases "includesStr ?t ''!''")
    case True
    then show ?thesis by (simp add: detectUrgency_def)
  next
    case False
    with urgent bang_stable keyword_survives
    obtain k where k: "k \<in> set URGENCY_HIGH_SIGNALS"
      and "includesStr input k \<or> includesStr ?t k" by blast
    moreover from k urgency_stable have "stableKeyword k" by (simp add: list_all_iff)
    ultimately have "includesStr ?t k" using keyword_survives by blast
    with k have "list_ex (\<lambda>s. includesStr ?t s) URGENCY_HIGH_SIGNALS"
      by (auto simp: list_ex_iff)
    then show ?thesis by (simp add: detectUrgency_def)
  qed
  moreover from calm have "detectIntentType ?t \<noteq> ''REFLECTIVE''"
    by (simp add: detectIntentType_def list_ex_iff)
  moreover from sure have "\<not> computeConfidence ?t context < CONFIDENCE_THRESHOLDS_expanded"
    by (simp add: assessIntent_fields)
  ultimately show ?thesis by (simp add: assessIntent_fields resolveDensity_def)
qed

theorem urgent_confident_is_minimal_witness:
  "list_ex (includesStr (trim (toLowerCase ''Show the list NOW''))) URGENCY_HIGH_SIGNALS \<and>
   \<not> list_ex (includesStr (trim (toLowerCase ''Show the list NOW''))) REFLECTIVE_SIGNALS \<and>
   confidence (assessIntent ''Show the list NOW'' mockContext) \<ge> CONFIDENCE_THRESHOLDS_expanded \<and>
   density (assessIntent ''Show the list NOW'' mockContext) = MINIMAL"
proof -
  have u: "list_ex (includesStr (trim (toLowerCase ''Show the list NOW''))) URGENCY_HIGH_SIGNALS"
    by code_simp
  then have urgent: "includesStr ''Show the list NOW'' ''!'' \<or>
      includesStr (trim (toLowerCase ''Show the list NOW'')) ''!'' \<or>
      (\<exists>k \<in> set URGENCY_HIGH_SIGNALS.
          includesStr ''Show the list NOW'' k \<or>
          includesStr (trim (toLowerCase ''Show the list NOW'')) k)"
    by (auto simp: list_ex_iff)
  have r: "\<not> list_ex (includesStr (trim (toLowerCase ''Show the list NOW''))) REFLECTIVE_SIGNALS"
    by code_simp
  then have calm:
    "\<forall>k \<in> set REFLECTIVE_SIGNALS. \<not> includesStr (trim (toLowerCase ''Show the list NOW'')) k"
    by (simp add: list_ex_iff)
  have sure:
    "confidence (assessIntent ''Show the list NOW'' mockContext) \<ge> CONFIDENCE_THRESHOLDS_expanded"
    by code_simp
  from u r sure urgent_confident_is_minimal [OF urgent calm sure]
  show ?thesis by blast
qed

section \<open>Confidence and totality of the classifier\<close>

text \<open>
  Claim C8.  For every input text and every context, whatever the hesitation counter, the
  intent-changed flag and the other counters of its profile are, the confidence of the
  classification lies in the closed interval from 0 to 1.
\<close>

theorem confidence_in_unit_interval:
  "0 \<le> confidence (assessIntent input context) \<and> confidence (assessIntent input context) \<le> 1"
  by (simp add: assessIntent_fields computeConfidence_bounds)

text \<open>
  Claim C7, as the engine has it.  The classifier is a total function: no branch of it
  raises, so every text (the empty one too) and every profile yield a result.  When the
  normalised text matches no keyword of any list and has no exclamation mark, the intent is
  ACTION and the urgency NORMAL; the confidence is 1 minus the two behavioural penalties of
  the profile plus the digit bonus, capped at 1, hence 1 whenever the hesitation counter is
  at most 5 and the intent-changed flag is off, and never below 0.8; the density is MINIMAL
  by rule 4, with that rule's reasoning.
\<close>

theorem unrecognized_text_defaults:
  assumes "\<not> list_ex (includesStr (trim (toLowerCase input))) REFLECTIVE_SIGNALS"
    and "\<not> list_ex (includesStr (trim (toLowerCase input))) ANALYTICAL_SIGNALS"
    and "\<not> list_ex (includesStr (trim (toLowerCase input))) UNCERTAINTY_SIGNALS"
    and "\<not> list_ex (includesStr (trim (toLowerCase input))) URGENCY_HIGH_SIGNALS"
    and "\<not> includesStr (trim (toLowerCase input)) ''!''"
  shows "type (assessIntent input context) = ''ACTION'' \<and>
     urgency (assessIntent input context) = NORMAL \<and>
     confidence (assessIntent input context) =
       min 1 (1 - (if backspaceCount (userProfile context) > 5 then 1 / 10 else 0)
                - (if lastIntentChanged (userProfile context) then 1 / 10 else 0)
                + (if hasDigits (trim (toLowerCase input)) then 1 / 10 else 0)) \<and>
     (backspaceCount (userProfile context) \<le> 5 \<and> \<not> lastIntentChanged (userProfile context)
        \<longrightarrow> confidence (assessIntent input context) = 1) \<and>
     8 / 10 \<le> confidence (assessIntent input context) \<and>
     density (assessIntent input context) = MINIMAL \<and>
     reasoning (assessIntent input context) =
       ''Confidence ('' @ toFixed2 (confidence (assessIntent input context)) @
       '') is high for Action''"
proof -
  let ?t = "trim (toLowerCase input)"
  have ty: "detectIntentType ?t = ''ACTION''"
    using assms(1,2) by (simp add: detectIntentType_def)
  have ur: "detectUrgency ?t = NORMAL"
    using assms(4,5) by (simp add: detectUrgency_def)
  have ex: "computeConfidence ?t context =
       min 1 (1 - (if backspaceCount (userProfile context) > 5 then 1 / 10 else 0)
                - (if lastIntentChanged (userProfile context) then 1 / 10 else 0)
                + (if hasDigits ?t then 1 / 10 else 0))"
    using assms(1,3) by (simp add: computeConfidence_def Let_def)
  have lo: "8 / 10 \<le> computeConfidence ?t context"
    by (simp add: ex)
  have one: "computeConfidence ?t context = 1"
    if "backspaceCount (userProfile context) \<le> 5" "\<not> lastIntentChanged (userProfile context)"
    using that by (simp add: ex)
  have de: "resolveDensity ''ACTION'' (computeConfidence ?t context) NORMAL context =
      (MINIMAL, ''Confidence ('' @ toFixed2 (computeConfidence ?t context) @
         '') is high for Action'')"
    using lo by (simp add: resolveDensity_def CONFIDENCE_THRESHOLDS_expanded_def
        CONFIDENCE_THRESHOLDS_minimal_def)
  have c: "confidence (assessIntent input context) = computeConfidence ?t context"
    by (simp add: assessIntent_fields)
  have t1: "type (assessIntent input context) = ''ACTION''"
    by (simp add: assessIntent_fields ty)
  have u1: "urgency (assessIntent input context) = NORMAL"
    by (simp add: assessIntent_fields ur)
  have d1: "density (assessIntent input context) = MINIMAL"
    by (simp only: assessIntent_fields ty ur de fst_conv)
  have r1: "reasoning (assessIntent input context) =
      ''Confidence ('' @ toFixed2 (computeConfidence ?t context) @ '') is high for Action''"
    by (simp only: assessIntent_fields ty ur de snd_conv)
  show ?thesis
    unfolding c
  proof (intro conjI impI)
    assume "backspaceCount (userProfile context) \<le> 5 \<and> \<not> lastIntentChanged (userProfile context)"
    then show "computeConfidence ?t context = 1" using one by blast
  qed (fact t1 u1 ex lo d1 r1)+
qed

theorem unrecognized_text_defaults_witness:
  "\<not> list_ex (includesStr (trim (toLowerCase []))) REFLECTIVE_SIGNALS \<and>
   \<not> list_ex (includesStr (trim (toLowerCase []))) ANALYTICAL_SIGNALS \<and>
   \<not> list_ex (includesStr (trim (toLowerCase []))) UNCERTAINTY_SIGNALS \<and>
   \<not> list_ex (includesStr (trim (toLowerCase []))) URGENCY_HIGH_SIGNALS \<and>
   \<not> includesStr (trim (toLowerCase [])) ''!'' \<and>
   backspaceCount (userProfile mockContext) \<le> 5 \<and>
   \<not> lastIntentChanged (userProfile mockContext) \<and>
   type (assessIntent [] mockContext) = ''ACTION'' \<and>
   urgency (assessIntent [] mockContext) = NORMAL \<and>
   confidence (assessIntent [] mockContext) = 1 \<and>
   density (assessIntent [] mockContext) = MINIMAL"
proof -
  have h: "\<not> list_ex (includesStr (trim (toLowerCase []))) REFLECTIVE_SIGNALS"
    "\<not> list_ex (includesStr (trim (toLowerCase []))) ANALYTICAL_SIGNALS"
    "\<not> list_ex (includesStr (trim (toLowerCase []))) UNCERTAINTY_SIGNALS"
    "\<not> list_ex (includesStr (trim (toLowerCase []))) URGENCY_HIGH_SIGNALS"
    "\<not> includesStr (trim (toLowerCase [])) ''!''"
    by code_simp+
  have p: "backspaceCount (userProfile mockContext) \<le> 5"
    "\<not> lastIntentChanged (userProfile mockContext)"
    by (simp_all add: mockContext_def)
  from h p unrecognized_text_defaults [OF h, of mockContext]
  show ?thesis by simp
qed

text \<open>
  The empty text with a profile whose hesitation counter is 6 matches nothing, and its
  confidence is 0.9, not 1.
\<close>

theorem hesitation_lowers_default_confidence:
  "confidence (assessIntent []
      \<lparr> currentDensity = STANDARD,
        userProfile = \<lparr> interactionsThisSession = 0, successfulActions = 0, backspaceCount = 6,
                        lastIntentChanged = False \<rparr>,
        history = [] \<rparr>) = 9 / 10"
  by code_simp

section \<open>The tracker's profile\<close>

text \<open>
  Claim C10.  A call of \<open>processInput\<close> changes exactly one field of the confidence
  profile: the interaction count grows by 1, while the successful-action count, the
  hesitation counter and the intent-changed flag keep their values.
\<close>

theorem processInput_profile_frame:
  "interactionsThisSession (st_userProfile (processInput text s)) =
     interactionsThisSession (st_userProfile s) + 1 \<and>
   interactionsThisSession (st_userProfile (processInput text s)) \<noteq>
     interactionsThisSession (st_userProfile s) \<and>
   successfulActions (st_userProfile (processInput text s)) =
     successfulActions (st_userProfile s) \<and>
   backspaceCount (st_userProfile (processInput text s)) = backspaceCount (st_userProfile s) \<and>
   lastIntentChanged (st_userProfile (processInput text s)) =
     lastIntentChanged (st_userProfile s)"
  by (simp add: processInput_fields newProfile_fields)

text \<open>
  Claim C9.  In every state that the tracker reaches from its initial state by calls of
  \<open>processInput\<close>, \<open>setManualOverride\<close> and \<open>recordSuccess\<close>, the intent-changed flag of the
  profile is off.  So it is off in the context that \<open>processInput\<close> hands to the engine,
  and the confidence computed there is the one computed without the 0.1 penalty of that
  flag.
\<close>

theorem lastIntentChanged_never_set:
  assumes "reachable s"
  shows "\<not> lastIntentChanged (st_userProfile s) \<and>
     \<not> lastIntentChanged (userProfile (engineContext s)) \<and>
     computeConfidence text (engineContext s) =
       computeConfidence text
         ((engineContext s) \<lparr> userProfile := (newProfile s) \<lparr> lastIntentChanged := False \<rparr> \<rparr>)"
  using reachable_profile [OF assms]
  by (simp add: newProfile_fields computeConfidence_def)

theorem lastIntentChanged_never_set_witness:
  "reachable (recordSuccess (handleManualOverride MINIMAL
      (processInput ''Why am I broke'' initialState))) \<and>
   \<not> lastIntentChanged (st_userProfile (recordSuccess (handleManualOverride MINIMAL
      (processInput ''Why am I broke'' initialState))))"
proof -
  have r: "reachable (recordSuccess (handleManualOverride MINIMAL
      (processInput ''Why am I broke'' initialState)))"
    by (intro reachable.intros)
  from r lastIntentChanged_never_set [OF r] show ?thesis by blast
qed

section \<open>Override, decay and the visible density\<close>

text \<open>
  Claim C3.  In a state with an active manual override, \<open>recordSuccess\<close> clears the
  override and adds 1 to the successful-action count.  The \<open>processInput\<close> that follows
  keeps no override and shows the density and the reasoning of the classifier.  These do
  not depend on the override that was cleared: any other state \<open>s'\<close> whose profile has the
  same hesitation counter and intent-changed flag, whatever its override, density,
  reasoning and last result, leads to the same density and reasoning.
\<close>

theorem recordSuccess_clears_override:
  assumes "st_manualOverride s = Some ov"
    and "backspaceCount (st_userProfile s') = backspaceCount (st_userProfile s)"
    and "lastIntentChanged (st_userProfile s') = lastIntentChanged (st_userProfile s)"
  shows "st_manualOverride (recordSuccess s) = None \<and>
     successfulActions (st_userProfile (recordSuccess s)) =
       successfulActions (st_userProfile s) + 1 \<and>
     st_manualOverride (processInput text (recordSuccess s)) = None \<and>
     st_density (processInput text (recordSuccess s)) =
       density (assessIntent text (engineContext (recordSuccess s))) \<and>
     st_reasoning (processInput text (recordSuccess s)) =
       reasoning (assessIntent text (engineContext (recordSuccess s))) \<and>
     st_density (processInput text (recordSuccess s')) =
       st_density (processInput text (recordSuccess s)) \<and>
     st_reasoning (processInput text (recordSuccess s')) =
       st_reasoning (processInput text (recordSuccess s))"
proof -
  have p: "backspaceCount (st_userProfile (recordSuccess s')) =
      backspaceCount (st_userProfile (recordSuccess s))"
    "lastIntentChanged (st_userProfile (recordSuccess s')) =
      lastIntentChanged (st_userProfile (recordSuccess s))"
    using assms(2,3) by (simp_all add: recordSuccess_fields)
  have n: "st_manualOverride (processInput text (recordSuccess x)) = None" for x
    by (simp add: processInput_fields recordSuccess_fields)
  show ?thesis
    using engineContext_same(2,3) [OF p, of "text"]
    by (simp add: processInput_none [OF n] n recordSuccess_fields)
qed

theorem recordSuccess_clears_override_witness:
  "st_manualOverride (handleManualOverride EXPANDED initialState) = Some EXPANDED \<and>
   st_manualOverride (recordSuccess (handleManualOverride EXPANDED initialState)) = None \<and>
   st_density (processInput ''Add 10 food''
      (recordSuccess (handleManualOverride EXPANDED initialState))) = MINIMAL \<and>
   st_density (processInput ''Add 10 food''
      (recordSuccess (handleManualOverride STANDARD initialState))) = MINIMAL"
proof -
  have h: "st_manualOverride (handleManualOverride EXPANDED initialState) = Some EXPANDED"
    by (simp add: handleManualOverride_def)
  have p: "backspaceCount (st_userProfile (handleManualOverride STANDARD initialState)) =
      backspaceCount (st_userProfile (handleManualOverride EXPANDED initialState))"
    "lastIntentChanged (st_userProfile (handleManualOverride STANDARD initialState)) =
      lastIntentChanged (st_userProfile (handleManualOverride EXPANDED initialState))"
    by (simp_all add: handleManualOverride_def)
  have e: "density (assessIntent ''Add 10 food''
      (engineContext (recordSuccess (handleManualOverride EXPANDED initialState)))) = MINIMAL"
    by code_simp
  from h e recordSuccess_clears_override [OF h p, of "''Add 10 food''"]
  show ?thesis by simp
qed

text \<open>
  Claim C6.  Two calls of \<open>processInput\<close> in a row with the same text, from any state, show
  the same density and the same reasoning after the second call as after the first.  (The
  calls change the profile in the interaction counter only.)
\<close>

theorem processInput_idempotent:
  "st_density (processInput text (processInput text s)) = st_density (processInput text s) \<and>
   st_reasoning (processInput text (processInput text s)) = st_reasoning (processInput text s)"
proof -
  let ?s1 = "processInput text s"
  have p: "backspaceCount (st_userProfile ?s1) = backspaceCount (st_userProfile s)"
    "lastIntentChanged (st_userProfile ?s1) = lastIntentChanged (st_userProfile s)"
    by (simp_all add: processInput_fields newProfile_fields)
  note same = engineContext_same [OF p]
  have li: "st_lastIntent ?s1 = Some (assessIntent text (engineContext s))"
    by (simp add: processInput_fields)
  have ov: "st_manualOverride (processInput text ?s1) = st_manualOverride ?s1"
    by (simp add: processInput_fields(3) [of "text" ?s1] li same split: option.split)
  show ?thesis
  proof (cases "st_manualOverride ?s1")
    case None
    with ov have "st_manualOverride (processInput text ?s1) = None" by simp
    from processInput_none [OF this] processInput_none [OF None] same
    show ?thesis by simp
  next
    case (Some d)
    with ov have "st_manualOverride (processInput text ?s1) = Some d" by simp
    from processInput_some [OF this] processInput_some [OF Some]
    show ?thesis by simp
  qed
qed

text \<open>
  Claim C2, as the tracker has it.  After \<open>processInput\<close> the visible density is the active
  override if one is left, and otherwise the density that the classifier computed for this
  input, which is stored as the last result.  After \<open>setManualOverride\<close> it is the new
  override.  \<open>recordSuccess\<close> does not compute a density: it clears the override and leaves
  the visible density and the last result as they are, and the next \<open>processInput\<close> shows
  the classifier's density.
\<close>

theorem visible_density_sources:
  "st_density (processInput text s) =
     (case st_manualOverride (processInput text s) of
        Some ov \<Rightarrow> ov
      | None \<Rightarrow> density (assessIntent text (engineContext s))) \<and>
   st_lastIntent (processInput text s) = Some (assessIntent text (engineContext s)) \<and>
   st_manualOverride (handleManualOverride d s) = Some d \<and>
   st_density (handleManualOverride d s) = d \<and>
   st_manualOverride (recordSuccess s) = None \<and>
   st_density (recordSuccess s) = st_density s \<and>
   st_lastIntent (recordSuccess s) = st_lastIntent s \<and>
   st_density (processInput text (recordSuccess s)) =
     density (assessIntent text (engineContext (recordSuccess s)))"
proof -
  have "st_manualOverride (processInput text (recordSuccess s)) = None"
    by (simp add: processInput_fields recordSuccess_fields)
  from processInput_none(1) [OF this] show ?thesis
    by (simp add: processInput_fields(2,4) recordSuccess_fields handleManualOverride_def)
qed

text \<open>
  After the input ``Why am I broke'' (density EXPANDED), an override to MINIMAL and a
  recorded success, no override is active, the classifier's density for the last input is
  EXPANDED, and the visible density is still MINIMAL.
\<close>

theorem density_stale_after_recordSuccess:
  "st_manualOverride (recordSuccess (handleManualOverride MINIMAL
       (processInput ''Why am I broke'' initialState))) = None \<and>
   map_option density (st_lastIntent (recordSuccess (handleManualOverride MINIMAL
       (processInput ''Why am I broke'' initialState)))) = Some EXPANDED \<and>
   st_density (recordSuccess (handleManualOverride MINIMAL
       (processInput ''Why am I broke'' initialState))) = MINIMAL"
  by code_simp

end
